theory Spec2Isabelle
  imports Main "HOL-Library.AList"
begin

section \<open>fs.notify: the watch state of a \<open>Notify\<close> instance\<close>

text \<open>
  The development embeds \<^verbatim>\<open>notify.js\<close>. The file runs in strict mode and leans on three
  outside modules: \<^verbatim>\<open>fs\<close> (\<^verbatim>\<open>fs.stat\<close>, \<^verbatim>\<open>fs.watch\<close>), \<^verbatim>\<open>async\<close> (\<^verbatim>\<open>async.filter\<close>)
  and \<^verbatim>\<open>events\<close> (\<^verbatim>\<open>emit\<close>). What the methods do to the instance and to the outside
  is written as state passing; an exception is a value of the result.
\<close>

subsection \<open>Data\<close>

type_synonym pathname = string

text \<open>The exceptions that occur: a JavaScript \<^verbatim>\<open>TypeError\<close>, and the \<^verbatim>\<open>ENOENT\<close> error of \<^verbatim>\<open>fs\<close>.\<close>

datatype exn = TypeError | ENOENT

text \<open>
  An \<^verbatim>\<open>fs.Stats\<close> object. Its \<^verbatim>\<open>mtime\<close> is a \<^verbatim>\<open>Date\<close> object: \<open>mtime\<close> is the instant it
  encodes and \<open>mtime_ref\<close> the identity of the object, which is what \<^verbatim>\<open>!==\<close> compares.
\<close>

record stats =
  mtime_ref :: nat
  mtime :: int
  isDirectory :: bool
  truthy_props :: "string list"

text \<open>
  A \<^verbatim>\<open>Stats\<close> object has more properties than the two this file reads (\<^verbatim>\<open>size\<close>, \<^verbatim>\<open>uid\<close>,
  \<^verbatim>\<open>isFile\<close>, ...). \<open>truthy_props\<close> names those of them, own or inherited, whose value is
  truthy (\<^verbatim>\<open>size\<close>, say, when it is not 0); the platform and the file decide them. Only
  a read through a replaced prototype (see \<open>FStats_truthy\<close> below) looks at them.
\<close>

text \<open>
  An \<^verbatim>\<open>FSWatcher\<close> as \<^verbatim>\<open>fs.watch\<close> returns it, with the \<^verbatim>\<open>path\<close> property that \<^verbatim>\<open>watch\<close>
  adds; \<open>wid\<close> is the identity of the object.
\<close>

record watcher =
  wid :: nat
  path :: pathname

text \<open>
  What a \<^verbatim>\<open>for ... in\<close> loop finds on an \<^verbatim>\<open>FSWatcher\<close> object besides \<^verbatim>\<open>path\<close>: the enumerable
  properties the platform gives the object, own and inherited, in the order of the
  loop, those before \<^verbatim>\<open>path\<close> and those after it. Of a value only its kind matters: a
  primitive (\<^verbatim>\<open>null\<close>, a number, a string), an object with a member \<^verbatim>\<open>close\<close> (the
  watcher's internal handle, whose \<^verbatim>\<open>close\<close> stops the watcher), or any other object. The
  platform decides the layout; \<^verbatim>\<open>close\<close> takes it as a parameter.
\<close>

datatype prop_value = Primitive | Closable | Inert

type_synonym layout = "(string \<times> prop_value) list \<times> (string \<times> prop_value) list"

text \<open>
  The events passed to \<^verbatim>\<open>this.emit\<close>. The first argument of a \<^verbatim>\<open>change\<close> event is the
  variable \<^verbatim>\<open>file\<close>, which is \<^verbatim>\<open>undefined\<close> (\<open>None\<close>) when the notification carried no
  filename.
\<close>

datatype event = Change "pathname option" stats | Removed pathname | Close

text \<open>
  What a call site hands to \<^verbatim>\<open>fs.stat\<close> as its first argument: a path string
  (\<^verbatim>\<open>fs.stat(path, ...)\<close> in \<^verbatim>\<open>watch\<close>), the module object \<^verbatim>\<open>fs\<close> itself
  (\<^verbatim>\<open>fs.stat(fs, ...)\<close> in \<^verbatim>\<open>change\<close>), or a function (\<^verbatim>\<open>fs.stat(function stats ...)\<close> in
  \<^verbatim>\<open>manually\<close>, where no path is passed at all).
\<close>

datatype stat_arg = Path_arg pathname | Module_arg | Function_arg

text \<open>The receiver of a method call: the instance, or \<^verbatim>\<open>undefined\<close> for a detached method.\<close>

datatype this_arg = This | Undefined

text \<open>The argument of \<^verbatim>\<open>add\<close>: one path or an array of paths.\<close>

datatype files_arg = Single pathname | Several "pathname list"

datatype outcome = Returns | Throws exn

text \<open>The arguments \<^verbatim>\<open>(err, stat)\<close> of a stat callback.\<close>

type_synonym reply = "exn option \<times> stats option"

text \<open>The file system at one moment: the metadata of each path that exists.\<close>

type_synonym world = "pathname \<Rightarrow> stats option"

text \<open>
  The first four fields are the properties the constructor defines. \<open>FSWatcher\<close> (singular)
  is the property that \<^verbatim>\<open>reset\<close> and \<^verbatim>\<open>error\<close> read; the constructor does not define it,
  so it is \<^verbatim>\<open>undefined\<close> (\<open>None\<close>) unless something outside this file assigns it. The
  objects are kept as association lists of their own properties in insertion order,
  which is what \<^verbatim>\<open>Object.keys\<close> enumerates and what \<^verbatim>\<open>for ... in\<close> enumerates first (keys
  that read as array indices come first in JavaScript; no path of the examples is one,
  and no property below depends on the order).

  \<^verbatim>\<open>FSWatchers\<close> and \<^verbatim>\<open>FStats\<close> are plain objects that inherit from \<^verbatim>\<open>Object.prototype\<close>. An
  assignment under the key \<^verbatim>\<open>__proto__\<close> adds no key: it replaces the prototype of the
  object by the assigned object. \<open>FSWatchers_proto\<close> and \<open>FStats_proto\<close> hold the object
  that took the place of \<^verbatim>\<open>Object.prototype\<close> (\<open>None\<close>: nothing did).

  The objects that the platform hands out (\<^verbatim>\<open>Stats\<close>, \<^verbatim>\<open>FSWatcher\<close>) and \<^verbatim>\<open>Object.prototype\<close>
  are taken to hold plain data properties and methods, as Node ships them.

  The other fields record the effects on the outside: the events emitted, the first
  argument of every \<^verbatim>\<open>fs.stat\<close> call, the initial stats of \<^verbatim>\<open>watch\<close> whose callback has
  not run yet (with the \<^verbatim>\<open>self\<close> the callback captured), the handles that \<^verbatim>\<open>fs.watch\<close>
  opened and nobody closed, and the identity of the next handle.
\<close>

record notify =
  FSWatchers :: "(pathname \<times> watcher) list"
  FStats :: "(pathname \<times> stats) list"
  retries :: "(pathname \<times> nat) list"
  maxRetries :: nat
  FSWatcher :: "(pathname \<times> watcher) list option"
  FSWatchers_proto :: "watcher option"
  FStats_proto :: "stats option"
  emitted :: "event list"
  stat_calls :: "stat_arg list"
  inflight :: "(this_arg \<times> pathname) list"
  live :: "watcher list"
  next_wid :: nat

subsection \<open>The outside modules\<close>

definition emit :: "event \<Rightarrow> notify \<Rightarrow> notify" where
  "emit e s = s\<lparr>emitted := emitted s @ [e]\<rparr>"

text \<open>
  \<^verbatim>\<open>fs.stat(x, callback)\<close> checks its argument before anything else: a path that is not a
  string makes it throw a \<^verbatim>\<open>TypeError\<close> at once, and the callback is never called. With
  a string it returns, and the callback runs later with the reply.
\<close>

definition fs_stat :: "stat_arg \<Rightarrow> notify \<Rightarrow> outcome \<times> notify" where
  "fs_stat a s =
     ((case a of Path_arg p \<Rightarrow> Returns | Module_arg \<Rightarrow> Throws TypeError
         | Function_arg \<Rightarrow> Throws TypeError),
      s\<lparr>stat_calls := stat_calls s @ [a]\<rparr>)"

definition fs_reply :: "world \<Rightarrow> pathname \<Rightarrow> reply" where
  "fs_reply w p = (case w p of None \<Rightarrow> (Some ENOENT, None) | Some st \<Rightarrow> (None, Some st))"

text \<open>
  The module \<^verbatim>\<open>fs\<close> has no member \<^verbatim>\<open>exist\<close> (its existence test is \<^verbatim>\<open>exists\<close>), so the
  expression \<^verbatim>\<open>fs.exist\<close> is \<^verbatim>\<open>undefined\<close>.
\<close>

definition fs_exist :: "(pathname \<Rightarrow> bool) option" where
  "fs_exist = None"

text \<open>
  \<^verbatim>\<open>async.filter(arr, iterator, callback)\<close>: with an empty array the callback gets the
  empty array at once; otherwise the iterator is called on the elements, which is a
  \<^verbatim>\<open>TypeError\<close> when it is \<^verbatim>\<open>undefined\<close>; the callback gets the elements the iterator
  accepted, in their order.
\<close>

fun async_filter :: "'a list \<Rightarrow> ('a \<Rightarrow> bool) option \<Rightarrow> exn + 'a list" where
  "async_filter [] iterator = Inr []"
| "async_filter (x # xs) None = Inl TypeError"
| "async_filter (x # xs) (Some f) = Inr (filter f (x # xs))"

text \<open>\<^verbatim>\<open>Array.prototype.forEach\<close> with a callback that may throw.\<close>

fun forEach :: "('a \<Rightarrow> notify \<Rightarrow> outcome \<times> notify) \<Rightarrow> 'a list \<Rightarrow> notify \<Rightarrow> outcome \<times> notify" where
  "forEach f [] s = (Returns, s)"
| "forEach f (x # xs) s =
     (case f x s of (Returns, s') \<Rightarrow> forEach f xs s' | (Throws e, s') \<Rightarrow> (Throws e, s'))"

subsection \<open>The constructor's state\<close>

definition init :: notify where
  "init = \<lparr>FSWatchers = [], FStats = [], retries = [], maxRetries = 5, FSWatcher = None,
     FSWatchers_proto = None, FStats_proto = None,
     emitted = [], stat_calls = [], inflight = [], live = [], next_wid = 0\<rparr>"

subsection \<open>Reading and writing the two objects\<close>

text \<open>
  \<^verbatim>\<open>this.FSWatchers[path] = FSWatcher\<close> and \<^verbatim>\<open>self.FStats[path] = stat\<close>: an own property,
  except under the key \<^verbatim>\<open>__proto__\<close>, where the assigned object becomes the prototype.
\<close>

definition set_FSWatchers :: "pathname \<Rightarrow> watcher \<Rightarrow> notify \<Rightarrow> notify" where
  "set_FSWatchers p h s =
     (if p = ''__proto__'' then s\<lparr>FSWatchers_proto := Some h\<rparr>
      else s\<lparr>FSWatchers := AList.update p h (FSWatchers s)\<rparr>)"

definition set_FStats :: "pathname \<Rightarrow> stats \<Rightarrow> notify \<Rightarrow> notify" where
  "set_FStats p stat s =
     (if p = ''__proto__'' then s\<lparr>FStats_proto := Some stat\<rparr>
      else s\<lparr>FStats := AList.update p stat (FStats s)\<rparr>)"

text \<open>
  The members of \<^verbatim>\<open>Object.prototype\<close>. A read of one of these names from a plain object
  that has no such key of its own yields the inherited member, a function or (for
  \<^verbatim>\<open>__proto__\<close>) the prototype: a truthy value. None of them is enumerable.
\<close>

definition object_prototype_names :: "string list" where
  "object_prototype_names =
     [''constructor'', ''toString'', ''toLocaleString'', ''valueOf'', ''hasOwnProperty'',
      ''isPrototypeOf'', ''propertyIsEnumerable'', ''__proto__'', ''__defineGetter__'',
      ''__defineSetter__'', ''__lookupGetter__'', ''__lookupSetter__'']"

text \<open>Whether a read of the property \<open>k\<close> of a \<^verbatim>\<open>Stats\<close> object yields a truthy value.\<close>

definition stats_truthy :: "stats \<Rightarrow> string \<Rightarrow> bool" where
  "stats_truthy st k = (k \<in> set [''mtime'', ''isDirectory''] \<or> k \<in> set (truthy_props st))"

text \<open>
  Whether \<^verbatim>\<open>self.FStats[file]\<close> is truthy: the object has the key itself (its value is a
  \<^verbatim>\<open>Stats\<close> object), or the name is inherited from \<^verbatim>\<open>Object.prototype\<close>, or it is inherited
  from the \<^verbatim>\<open>Stats\<close> object that an assignment under \<^verbatim>\<open>__proto__\<close> made the prototype.
\<close>

definition FStats_truthy :: "notify \<Rightarrow> pathname \<Rightarrow> bool" where
  "FStats_truthy s file =
     (file \<in> set (map fst (FStats s)) \<or> file \<in> set object_prototype_names \<or>
      (case FStats_proto s of None \<Rightarrow> False | Some st \<Rightarrow> stats_truthy st file))"

subsection \<open>\<^verbatim>\<open>watch\<close>\<close>

text \<open>
  The callback \<^verbatim>\<open>stats\<close> of \<^verbatim>\<open>watch\<close>: \<^verbatim>\<open>if (stat) self.FStats[path] = stat\<close>. When \<^verbatim>\<open>watch\<close>
  ran detached, \<^verbatim>\<open>self\<close> is \<^verbatim>\<open>undefined\<close> and the assignment throws.
\<close>

definition watch_stats :: "this_arg \<Rightarrow> pathname \<Rightarrow> reply \<Rightarrow> notify \<Rightarrow> outcome \<times> notify" where
  "watch_stats self p r s =
     (case snd r of
        None \<Rightarrow> (Returns, s)
      | Some stat \<Rightarrow>
          (case self of
             Undefined \<Rightarrow> (Throws TypeError, s)
           | This \<Rightarrow> (Returns, set_FStats p stat s)))"

text \<open>
  \<^verbatim>\<open>watch\<close> first issues the stat, then evaluates \<^verbatim>\<open>this.FSWatchers\<close> (a \<^verbatim>\<open>TypeError\<close> when
  detached), then calls \<^verbatim>\<open>fs.watch(path)\<close>, which throws for a path that does not exist,
  and stores the new handle under the path without looking at an older one. The new
  handle is open from \<^verbatim>\<open>fs.watch\<close> on.
\<close>

definition watch :: "this_arg \<Rightarrow> world \<Rightarrow> pathname \<Rightarrow> notify \<Rightarrow> outcome \<times> notify" where
  "watch self w p s =
     (let s1 = snd (fs_stat (Path_arg p) s);
          s2 = s1\<lparr>inflight := inflight s1 @ [(self, p)]\<rparr>
      in case self of
           Undefined \<Rightarrow> (Throws TypeError, s2)
         | This \<Rightarrow>
             (case w p of
                None \<Rightarrow> (Throws ENOENT, s2)
              | Some st \<Rightarrow>
                  (let h = \<lparr>wid = next_wid s2, path = p\<rparr>
                   in (Returns,
                       set_FSWatchers p h
                         (s2\<lparr>live := live s2 @ [h], next_wid := Suc (next_wid s2)\<rparr>)))))"

text \<open>The event loop runs the callback of one initial stat that is in flight.\<close>

definition stat_done :: "this_arg \<Rightarrow> pathname \<Rightarrow> reply \<Rightarrow> notify \<Rightarrow> outcome \<times> notify" where
  "stat_done self p r s = watch_stats self p r (s\<lparr>inflight := remove1 (self, p) (inflight s)\<rparr>)"

subsection \<open>\<^verbatim>\<open>add\<close> and the constructor\<close>

definition add :: "world \<Rightarrow> files_arg \<Rightarrow> notify \<Rightarrow> outcome \<times> notify" where
  "add w files s =
     (let files' = (case files of Single p \<Rightarrow> [p] | Several ps \<Rightarrow> ps)
      in case async_filter files' fs_exist of
           Inl e \<Rightarrow> (Throws e, s)
         | Inr existing \<Rightarrow> forEach (watch Undefined w) existing s)"

text \<open>\<^verbatim>\<open>if (files) this.add(files)\<close>: an empty string is falsy, an array never is.\<close>

definition Notify :: "world \<Rightarrow> files_arg option \<Rightarrow> outcome \<times> notify" where
  "Notify w files =
     (case files of
        None \<Rightarrow> (Returns, init)
      | Some (Single p) \<Rightarrow> (if p = [] then (Returns, init) else add w (Single p) init)
      | Some (Several ps) \<Rightarrow> add w (Several ps) init)"

subsection \<open>\<^verbatim>\<open>close\<close>\<close>

text \<open>
  The loop \<^verbatim>\<open>for (watcher in this.FSWatchers)\<close> over the object's own keys: each value is
  a stored handle, which has a member \<^verbatim>\<open>close\<close>, and is closed.
\<close>

fun close_each :: "watcher list \<Rightarrow> watcher list \<Rightarrow> watcher list" where
  "close_each [] lv = lv"
| "close_each (h # hs) lv = close_each hs (removeAll h lv)"

text \<open>
  When a handle \<open>h0\<close> has become the prototype of \<^verbatim>\<open>FSWatchers\<close>, the loop goes on over the
  enumerable properties of \<open>h0\<close> that no own key hides, and reads each through
  \<^verbatim>\<open>this.FSWatchers[watcher]\<close>. \<^verbatim>\<open>'close' in FSWatcher\<close> throws a \<^verbatim>\<open>TypeError\<close> for a primitive,
  such as the string that \<^verbatim>\<open>watch\<close> stored in \<^verbatim>\<open>path\<close>; for the internal handle it is true,
  and closing that stops \<open>h0\<close>.
\<close>

fun close_inherited ::
  "(string \<times> prop_value) list \<Rightarrow> string list \<Rightarrow> watcher \<Rightarrow> watcher list
     \<Rightarrow> outcome \<times> watcher list" where
  "close_inherited [] hidden h0 lv = (Returns, lv)"
| "close_inherited ((name, v) # ps) hidden h0 lv =
     (if name \<in> set hidden then close_inherited ps hidden h0 lv
      else case v of
             Primitive \<Rightarrow> (Throws TypeError, lv)
           | Closable \<Rightarrow> close_inherited ps hidden h0 (removeAll h0 lv)
           | Inert \<Rightarrow> close_inherited ps hidden h0 lv)"

text \<open>
  \<^verbatim>\<open>close\<close>: the loop, then two fresh objects, then the event. An exception in the loop
  leaves the two objects as they are and emits nothing.
\<close>

definition close :: "layout \<Rightarrow> notify \<Rightarrow> outcome \<times> notify" where
  "close L s =
     (let lv = close_each (map snd (FSWatchers s)) (live s)
      in case FSWatchers_proto s of
           None \<Rightarrow>
             (Returns,
              emit Close (s\<lparr>live := lv, FSWatchers := [], FSWatchers_proto := None,
                            FStats := [], FStats_proto := None\<rparr>))
         | Some h0 \<Rightarrow>
             (case close_inherited (fst L @ [(''path'', Primitive)] @ snd L)
                     (map fst (FSWatchers s)) h0 lv of
                (Throws e, lv') \<Rightarrow> (Throws e, s\<lparr>live := lv'\<rparr>)
              | (Returns, lv') \<Rightarrow>
                  (Returns,
                   emit Close (s\<lparr>live := lv', FSWatchers := [], FSWatchers_proto := None,
                                 FStats := [], FStats_proto := None\<rparr>))))"

subsection \<open>\<^verbatim>\<open>manually\<close>\<close>

definition manually_files :: "watcher option \<Rightarrow> notify \<Rightarrow> pathname list" where
  "manually_files FSW s =
     (case FSW of
        None \<Rightarrow> map fst (FStats s)
      | Some h \<Rightarrow> (if path h \<noteq> [] then [path h] else map fst (FStats s)))"

text \<open>
  The function \<^verbatim>\<open>stats\<close> inside \<^verbatim>\<open>manually\<close>, as it would run if something called it with
  \<^verbatim>\<open>(err, stat)\<close>. It compares the two \<^verbatim>\<open>Date\<close> objects with \<^verbatim>\<open>!==\<close> and does not write
  \<^verbatim>\<open>FStats\<close>.
\<close>

definition manually_stats :: "pathname \<Rightarrow> stats \<Rightarrow> reply \<Rightarrow> notify \<Rightarrow> outcome \<times> notify" where
  "manually_stats file current r s =
     (case r of
        (err, None) \<Rightarrow> (Returns, s)
      | (Some e, Some stat) \<Rightarrow> (Returns, s)
      | (None, Some stat) \<Rightarrow>
          (if mtime_ref current \<noteq> mtime_ref stat
           then (Returns, emit (Change (Some file) stat) s)
           else (Returns, s)))"

text \<open>
  The loop body \<^verbatim>\<open>test\<close>: \<^verbatim>\<open>if (!current) return\<close> with \<^verbatim>\<open>current = self.FStats[file]\<close>,
  which is used no further outside the callback. The call \<^verbatim>\<open>fs.stat(function stats ...)\<close>
  passes the function where the path belongs and passes no callback.
\<close>

definition test :: "pathname \<Rightarrow> notify \<Rightarrow> outcome \<times> notify" where
  "test file s =
     (if FStats_truthy s file then fs_stat Function_arg s else (Returns, s))"

definition manually :: "watcher option \<Rightarrow> notify \<Rightarrow> outcome \<times> notify" where
  "manually FSW s = forEach test (manually_files FSW s) s"

subsection \<open>\<^verbatim>\<open>reset\<close>\<close>

text \<open>
  \<^verbatim>\<open>this.FSWatcher\<close> is \<^verbatim>\<open>undefined\<close> in every state this file produces, so the first
  statement throws. Were it a plain object \<open>m\<close>, a path that is no key of \<open>m\<close> would
  yield \<^verbatim>\<open>undefined\<close> or an inherited member without a \<^verbatim>\<open>close\<close> method, and the call
  \<^verbatim>\<open>FSWatcher.close()\<close> would throw.
\<close>

definition reset :: "world \<Rightarrow> pathname \<Rightarrow> notify \<Rightarrow> outcome \<times> notify" where
  "reset w p s =
     (case FSWatcher s of
        None \<Rightarrow> (Throws TypeError, s)
      | Some m \<Rightarrow>
          (case map_of m p of
             None \<Rightarrow> (Throws TypeError, s)
           | Some h \<Rightarrow>
               watch This w p
                 (s\<lparr>live := removeAll h (live s),
                    FSWatcher := Some (AList.delete p m),
                    FStats := AList.delete p (FStats s)\<rparr>)))"

subsection \<open>\<^verbatim>\<open>change\<close>\<close>

text \<open>\<^verbatim>\<open>!filename\<close>: true for a missing filename and for the empty string.\<close>

definition falsy :: "string option \<Rightarrow> bool" where
  "falsy filename = (filename = None \<or> filename = Some [])"

text \<open>
  The function \<^verbatim>\<open>stats\<close> inside \<^verbatim>\<open>change\<close>, as it would run if something called it with
  \<^verbatim>\<open>(err, stat)\<close>.
\<close>

definition change_stats :: "watcher \<Rightarrow> string option \<Rightarrow> reply \<Rightarrow> notify \<Rightarrow> outcome \<times> notify" where
  "change_stats FSW filename r s =
     (let s1 = (case snd r of
                  None \<Rightarrow> s
                | Some stat \<Rightarrow> set_FStats (path FSW) stat s)
      in case r of
           (Some e, st) \<Rightarrow> (Returns, s1)
         | (None, None) \<Rightarrow> (Throws TypeError, s1)
         | (None, Some stat) \<Rightarrow>
             (Returns,
              emit (Change (if isDirectory stat then filename else Some (path FSW)) stat) s1))"

text \<open>
  \<^verbatim>\<open>change\<close> has no \<^verbatim>\<open>return\<close> after the sweep, and its stat call is \<^verbatim>\<open>fs.stat(fs, ...)\<close>: the
  first argument is the module, not \<^verbatim>\<open>path\<close>.
\<close>

definition change :: "watcher \<Rightarrow> string \<Rightarrow> string option \<Rightarrow> notify \<Rightarrow> outcome \<times> notify" where
  "change FSW ev filename s =
     (case (if falsy filename then manually (Some FSW) s else (Returns, s)) of
        (Throws e, s') \<Rightarrow> (Throws e, s')
      | (Returns, s') \<Rightarrow> fs_stat Module_arg s')"

subsection \<open>\<^verbatim>\<open>error\<close>\<close>

definition error :: "watcher \<Rightarrow> exn \<Rightarrow> notify \<Rightarrow> outcome \<times> notify" where
  "error FSW err s =
     (case FSWatcher s of
        None \<Rightarrow> (Throws TypeError, s)
      | Some m \<Rightarrow>
          (Returns,
           emit (Removed (path FSW))
             (s\<lparr>FSWatcher := Some (AList.delete (path FSW) m),
                FStats := AList.delete (path FSW) (FStats s)\<rparr>)))"

subsection \<open>Runs\<close>

text \<open>
  An error of the operating system on an open watcher: Node closes the watcher's
  handle and then emits \<^verbatim>\<open>error\<close>, which runs the listener that \<^verbatim>\<open>watch\<close> attached.
\<close>

definition os_error :: "watcher \<Rightarrow> exn \<Rightarrow> notify \<Rightarrow> outcome \<times> notify" where
  "os_error FSW err s = error FSW err (s\<lparr>live := removeAll FSW (live s)\<rparr>)"

text \<open>
  The states an instance passes through on a platform with the layout \<open>L\<close>: the
  constructor's, and from there any call of a method, the completion of an initial stat
  that is in flight, and the notifications of an open handle. \<^verbatim>\<open>watch\<close> is called as a
  method of the instance here.
\<close>

inductive reach :: "layout \<Rightarrow> notify \<Rightarrow> bool" for L :: layout where
  r_init: "reach L init"
| r_add: "reach L s \<Longrightarrow> reach L (snd (add w files s))"
| r_watch: "reach L s \<Longrightarrow> reach L (snd (watch This w p s))"
| r_stat: "reach L s \<Longrightarrow> (self, p) \<in> set (inflight s) \<Longrightarrow>
     reach L (snd (stat_done self p (fs_reply w p) s))"
| r_close: "reach L s \<Longrightarrow> reach L (snd (close L s))"
| r_manually: "reach L s \<Longrightarrow> reach L (snd (manually FSW s))"
| r_reset: "reach L s \<Longrightarrow> reach L (snd (reset w p s))"
| r_change: "reach L s \<Longrightarrow> FSW \<in> set (live s) \<Longrightarrow>
     reach L (snd (change FSW ev filename s))"
| r_error: "reach L s \<Longrightarrow> FSW \<in> set (live s) \<Longrightarrow> reach L (snd (os_error FSW err s))"




text \<open>\<open>only_calls s s'\<close>: the step from \<open>s\<close> to \<open>s'\<close> did nothing but call \<^verbatim>\<open>fs.stat\<close>.\<close>

definition only_calls :: "notify \<Rightarrow> notify \<Rightarrow> bool" where
  "only_calls s s' = (s'\<lparr>stat_calls := []\<rparr> = s\<lparr>stat_calls := []\<rparr>)"

text \<open>The \<^verbatim>\<open>fs.stat\<close> calls made on the way from \<open>s\<close> to \<open>s'\<close>.\<close>

definition new_calls :: "notify \<Rightarrow> notify \<Rightarrow> stat_arg list" where
  "new_calls s s' = drop (length (stat_calls s)) (stat_calls s')"

subsection \<open>A file, a directory and the states used below\<close>

text \<open>
  The file \<^verbatim>\<open>/tmp/a.txt\<close> with modification time 100, later written to (time 200, a new
  \<^verbatim>\<open>Date\<close> object), and the directory \<^verbatim>\<open>/tmp/d\<close>.
\<close>

definition ex_st0 :: stats where
  "ex_st0 = \<lparr>mtime_ref = 1, mtime = 100, isDirectory = False,
     truthy_props = [''mode'', ''size'', ''isFile'']\<rparr>"

definition ex_st1 :: stats where
  "ex_st1 = \<lparr>mtime_ref = 2, mtime = 200, isDirectory = False,
     truthy_props = [''mode'', ''size'', ''isFile'']\<rparr>"

text \<open>\<^verbatim>\<open>/tmp/a.txt\<close> untouched and stat'ed again: the same instant in a new \<^verbatim>\<open>Date\<close> object.\<close>

definition ex_st0_again :: stats where
  "ex_st0_again = \<lparr>mtime_ref = 4, mtime = 100, isDirectory = False,
     truthy_props = [''mode'', ''size'', ''isFile'']\<rparr>"

definition ex_stD :: stats where
  "ex_stD = \<lparr>mtime_ref = 3, mtime = 100, isDirectory = True,
     truthy_props = [''mode'', ''size'', ''isFile'']\<rparr>"

definition ex_world :: world where
  "ex_world p =
     (if p = ''/tmp/a.txt'' then Some ex_st0 else if p = ''/tmp/d'' then Some ex_stD else None)"

definition ex_written :: world where
  "ex_written p =
     (if p = ''/tmp/a.txt'' then Some ex_st1 else if p = ''/tmp/d'' then Some ex_stD else None)"

definition ex_gone :: world where
  "ex_gone p = (if p = ''/tmp/d'' then Some ex_stD else None)"

text \<open>
  A layout in the manner of Node 0.8: the internal handle comes before \<^verbatim>\<open>path\<close>; the
  listener table and the inherited methods, all of them objects without a member
  \<^verbatim>\<open>close\<close>, come after it.
\<close>

definition ex_layout :: layout where
  "ex_layout =
     ([(''_handle'', Closable)],
      [(''_events'', Inert), (''start'', Inert), (''close'', Inert),
       (''setMaxListeners'', Inert), (''emit'', Inert), (''addListener'', Inert),
       (''on'', Inert), (''once'', Inert), (''removeListener'', Inert),
       (''removeAllListeners'', Inert), (''listeners'', Inert)])"

definition ex_hA :: watcher where
  "ex_hA = \<lparr>wid = 0, path = ''/tmp/a.txt''\<rparr>"

definition ex_hD :: watcher where
  "ex_hD = \<lparr>wid = 0, path = ''/tmp/d''\<rparr>"

text \<open>\<^verbatim>\<open>/tmp/a.txt\<close> just registered, its initial stat in flight; then with the stat done.\<close>

definition ex_registering_a :: notify where
  "ex_registering_a = snd (watch This ex_world ''/tmp/a.txt'' init)"

definition ex_watched_a :: notify where
  "ex_watched_a =
     snd (stat_done This ''/tmp/a.txt'' (fs_reply ex_world ''/tmp/a.txt'') ex_registering_a)"

text \<open>The directory \<^verbatim>\<open>/tmp/d\<close> registered and its initial stat done.\<close>

definition ex_watched_d :: notify where
  "ex_watched_d =
     snd (stat_done This ''/tmp/d'' (fs_reply ex_world ''/tmp/d'')
            (snd (watch This ex_world ''/tmp/d'' init)))"




text \<open>\<^verbatim>\<open>/tmp/a.txt\<close> registered with its stat in flight, and \<^verbatim>\<open>/tmp/d\<close> watched and cached.\<close>

definition ex_two_paths :: notify where
  "ex_two_paths =
     snd (stat_done This ''/tmp/d'' (fs_reply ex_world ''/tmp/d'')
            (snd (watch This ex_world ''/tmp/d'' ex_registering_a)))"

text \<open>A file named \<^verbatim>\<open>__proto__\<close> in the working directory, registered.\<close>

definition ex_world_proto :: world where
  "ex_world_proto p = (if p = ''__proto__'' then Some ex_st0 else None)"

definition ex_hP :: watcher where
  "ex_hP = \<lparr>wid = 0, path = ''__proto__''\<rparr>"

definition ex_proto_watched :: notify where
  "ex_proto_watched = snd (watch This ex_world_proto ''__proto__'' init)"


section \<open>Properties\<close>

subsection \<open>The states of the examples\<close>

lemma ex_registering_a_eq:
  "ex_registering_a = \<lparr>FSWatchers = [(''/tmp/a.txt'', ex_hA)], FStats = [], retries = [],
     maxRetries = 5, FSWatcher = None, FSWatchers_proto = None, FStats_proto = None,
     emitted = [], stat_calls = [Path_arg ''/tmp/a.txt''],
     inflight = [(This, ''/tmp/a.txt'')], live = [ex_hA], next_wid = 1\<rparr>"
  by (simp add: ex_registering_a_def watch_def fs_stat_def init_def ex_world_def ex_hA_def
      set_FSWatchers_def Let_def)

lemma ex_watched_a_eq:
  "ex_watched_a = \<lparr>FSWatchers = [(''/tmp/a.txt'', ex_hA)], FStats = [(''/tmp/a.txt'', ex_st0)],
     retries = [], maxRetries = 5, FSWatcher = None, FSWatchers_proto = None,
     FStats_proto = None, emitted = [],
     stat_calls = [Path_arg ''/tmp/a.txt''], inflight = [], live = [ex_hA], next_wid = 1\<rparr>"
  by (simp add: ex_watched_a_def ex_registering_a_eq stat_done_def watch_stats_def fs_reply_def
      ex_world_def set_FStats_def)

lemma ex_watched_d_eq:
  "ex_watched_d = \<lparr>FSWatchers = [(''/tmp/d'', ex_hD)], FStats = [(''/tmp/d'', ex_stD)],
     retries = [], maxRetries = 5, FSWatcher = None, FSWatchers_proto = None,
     FStats_proto = None, emitted = [],
     stat_calls = [Path_arg ''/tmp/d''], inflight = [], live = [ex_hD], next_wid = 1\<rparr>"
  by (simp add: ex_watched_d_def stat_done_def watch_stats_def fs_reply_def watch_def fs_stat_def
      init_def ex_world_def ex_hD_def set_FSWatchers_def set_FStats_def Let_def)




lemma ex_two_paths_eq:
  "ex_two_paths = \<lparr>FSWatchers = [(''/tmp/a.txt'', ex_hA), (''/tmp/d'', \<lparr>wid = 1, path = ''/tmp/d''\<rparr>)],
     FStats = [(''/tmp/d'', ex_stD)], retries = [], maxRetries = 5, FSWatcher = None,
     FSWatchers_proto = None, FStats_proto = None,
     emitted = [], stat_calls = [Path_arg ''/tmp/a.txt'', Path_arg ''/tmp/d''],
     inflight = [(This, ''/tmp/a.txt'')],
     live = [ex_hA, \<lparr>wid = 1, path = ''/tmp/d''\<rparr>], next_wid = 2\<rparr>"
  by (simp add: ex_two_paths_def ex_registering_a_eq stat_done_def watch_stats_def fs_reply_def
      watch_def fs_stat_def ex_world_def set_FSWatchers_def set_FStats_def Let_def)

lemma ex_proto_watched_eq:
  "ex_proto_watched = \<lparr>FSWatchers = [], FStats = [], retries = [], maxRetries = 5,
     FSWatcher = None, FSWatchers_proto = Some ex_hP, FStats_proto = None,
     emitted = [], stat_calls = [Path_arg ''__proto__''],
     inflight = [(This, ''__proto__'')], live = [ex_hP], next_wid = 1\<rparr>"
  by (simp add: ex_proto_watched_def watch_def fs_stat_def init_def ex_world_proto_def ex_hP_def
      set_FSWatchers_def Let_def)


subsection \<open>What the methods leave alone\<close>

lemma only_calls_refl: "only_calls s s"
  by (simp add: only_calls_def)

lemma only_calls_trans: "only_calls s s' \<Longrightarrow> only_calls s' s'' \<Longrightarrow> only_calls s s''"
  by (simp add: only_calls_def)

lemma fs_stat_only_calls: "only_calls s (snd (fs_stat a s))"
  by (simp add: only_calls_def fs_stat_def)

lemma test_only_calls: "only_calls s (snd (test file s))"
  by (simp add: test_def fs_stat_only_calls only_calls_refl)

lemma forEach_test_only_calls: "only_calls s (snd (forEach test files s))"
proof (induction files arbitrary: s)
  case Nil
  show ?case by (simp add: only_calls_refl)
next
  case (Cons f fs)
  obtain r s' where t: "test f s = (r, s')" by (cases "test f s")
  have a: "only_calls s s'" using test_only_calls [of s f] t by simp
  show ?case
  proof (cases r)
    case Returns
    then show ?thesis using t a Cons.IH [of s'] by (auto intro: only_calls_trans)
  next
    case (Throws e)
    then show ?thesis using t a by simp
  qed
qed

lemma manually_only_calls: "only_calls s (snd (manually FSW s))"
  by (simp add: manually_def forEach_test_only_calls)

lemma change_only_calls: "only_calls s (snd (change FSW ev filename s))"
proof -
  obtain r s' where m: "manually (Some FSW) s = (r, s')" by (cases "manually (Some FSW) s")
  have a: "only_calls s s'" using manually_only_calls [of s "Some FSW"] m by simp
  show ?thesis
    using a m fs_stat_only_calls [of s' Module_arg] fs_stat_only_calls [of s Module_arg]
    by (cases r) (auto simp: change_def intro: only_calls_trans)
qed


subsection \<open>What the methods throw\<close>

lemma test_throws: "fst (test file s) = Returns \<or> fst (test file s) = Throws TypeError"
  by (simp add: test_def fs_stat_def)

lemma forEach_test_throws:
  "fst (forEach test files s) = Returns \<or> fst (forEach test files s) = Throws TypeError"
proof (induction files arbitrary: s)
  case Nil
  show ?case by simp
next
  case (Cons f fs)
  obtain r s' where t: "test f s = (r, s')" by (cases "test f s")
  show ?case
  proof (cases r)
    case Returns
    then show ?thesis using t Cons.IH [of s'] by simp
  next
    case (Throws e)
    then show ?thesis using t test_throws [of f s] by simp
  qed
qed

lemma change_throws: "fst (change FSW ev filename s) = Throws TypeError"
proof -
  obtain r s' where m: "manually (Some FSW) s = (r, s')" by (cases "manually (Some FSW) s")
  have "r = Returns \<or> r = Throws TypeError"
    using forEach_test_throws [of "manually_files (Some FSW) s" s] m by (simp add: manually_def)
  then show ?thesis using m by (auto simp: change_def fs_stat_def)
qed




subsection \<open>The sweep for one handle, and a notification without a filename\<close>

lemma manually_single:
  assumes "path FSW \<noteq> []"
  shows "manually (Some FSW) s = test (path FSW) s"
proof -
  obtain r s' where t: "test (path FSW) s = (r, s')" by (cases "test (path FSW) s")
  show ?thesis using assms t by (cases r) (simp_all add: manually_def manually_files_def)
qed

lemma change_no_filename:
  assumes "falsy filename" and "path FSW \<noteq> []"
  shows "change FSW ev filename s =
           (if FStats_truthy s (path FSW) then fs_stat Function_arg s
            else fs_stat Module_arg s)"
  using assms
  by (simp add: change_def manually_single test_def fs_stat_def)

subsection \<open>The stat callbacks of \<^verbatim>\<open>change\<close> and \<^verbatim>\<open>manually\<close>, were they called\<close>

text \<open>
  Neither \<^verbatim>\<open>fs.stat(fs, ...)\<close> nor \<^verbatim>\<open>fs.stat(function ...)\<close> ever calls its callback, so the
  lemmas say what the functions would do, not what an instance does.
\<close>

lemma change_stats_resolves:
  "change_stats FSW filename (None, Some stat) s =
     (Returns,
      emit (Change (if isDirectory stat then filename else Some (path FSW)) stat)
        (set_FStats (path FSW) stat s))"
  by (simp add: change_stats_def)

lemma stats_callbacks_drop_failure:
  "change_stats FSW filename (Some e, None) s = (Returns, s) \<and>
   manually_stats visited current (Some e, None) s = (Returns, s)"
  by (simp add: change_stats_def manually_stats_def)

lemma manually_stats_keeps_cache:
  "FStats (snd (manually_stats visited current r s)) = FStats s \<and>
   FStats_proto (snd (manually_stats visited current r s)) = FStats_proto s"
  by (cases r) (simp add: manually_stats_def emit_def split: option.splits)

subsection \<open>\<^verbatim>\<open>add\<close> registers nothing\<close>

lemma Notify_without_files:
  "Notify w None = (Returns, init) \<and> Notify w (Some (Several [])) = (Returns, init) \<and>
   Notify w (Some (Several (p # ps))) = (Throws TypeError, init)"
  by (simp add: Notify_def add_def fs_exist_def)

lemma add_nonempty_throws:
  "add w (Single p) s = (Throws TypeError, s) \<and>
   add w (Several (p # ps)) s = (Throws TypeError, s) \<and>
   add w (Several []) s = (Returns, s)"
  by (simp add: add_def fs_exist_def)

lemma detached_watch_registers_nothing:
  "FSWatchers (snd (forEach (watch Undefined w) ps s)) = FSWatchers s \<and>
   FSWatchers_proto (snd (forEach (watch Undefined w) ps s)) = FSWatchers_proto s \<and>
   FStats (snd (forEach (watch Undefined w) ps s)) = FStats s \<and>
   emitted (snd (forEach (watch Undefined w) ps s)) = emitted s"
  by (cases ps) (simp_all add: watch_def fs_stat_def Let_def)

subsection \<open>\<^verbatim>\<open>close\<close>\<close>


lemma close_inherited_path_throws:
  "fst (close_inherited (before @ (''path'', Primitive) # after) [] h0 lv) = Throws TypeError"
proof (induction before arbitrary: lv)
  case Nil
  show ?case by simp
next
  case (Cons x before)
  obtain name v where x: "x = (name, v)" by (cases x)
  show ?case using Cons.IH x by (cases v) simp_all
qed

lemma close_replaced_prototype_throws:
  assumes "FSWatchers s = []" and "FSWatchers_proto s = Some h0"
  shows "fst (close L s) = Throws TypeError \<and> emitted (snd (close L s)) = emitted s \<and>
         FSWatchers_proto (snd (close L s)) = Some h0 \<and> FStats (snd (close L s)) = FStats s"
proof -
  obtain r lv where c: "close_inherited (fst L @ (''path'', Primitive) # snd L) [] h0 (live s) = (r, lv)"
    by (cases "close_inherited (fst L @ (''path'', Primitive) # snd L) [] h0 (live s)")
  have "r = Throws TypeError"
    using close_inherited_path_throws [of "fst L" "snd L" h0 "live s"] c by simp
  then show ?thesis using assms c by (simp add: close_def)
qed







subsection \<open>Invariants of the runs\<close>


















lemma reach_ex_proto_watched: "reach L ex_proto_watched"
  unfolding ex_proto_watched_def by (rule r_watch [OF r_init])


subsection \<open>The claims\<close>

text \<open>
  C1 (directory resolution) does not hold of \<^verbatim>\<open>change\<close>. The directory \<^verbatim>\<open>/tmp/d\<close> is
  watched and exists as a directory; the notification \<^verbatim>\<open>(handle, "change", "F")\<close> makes
  \<^verbatim>\<open>change\<close> call \<^verbatim>\<open>fs.stat(fs, ...)\<close>, whose first argument is the module \<^verbatim>\<open>fs\<close> and not
  \<^verbatim>\<open>path\<close>. The call throws a \<^verbatim>\<open>TypeError\<close>; no \<^verbatim>\<open>change\<close> event is emitted, for \<^verbatim>\<open>F\<close> or for
  anything else. The same happens for the watched file \<^verbatim>\<open>/tmp/a.txt\<close>, where the event
  should name the handle's own path.
\<close>

theorem C1_change_in_directory_throws:
  "map_of (FSWatchers ex_watched_d) ''/tmp/d'' = Some ex_hD \<and>
   ex_world ''/tmp/d'' = Some ex_stD \<and> isDirectory ex_stD \<and>
   change ex_hD ''change'' (Some ''F'') ex_watched_d =
     (Throws TypeError, ex_watched_d\<lparr>stat_calls := [Path_arg ''/tmp/d'', Module_arg]\<rparr>) \<and>
   emitted (snd (change ex_hD ''change'' (Some ''F'') ex_watched_d)) = [] \<and>
   map_of (FSWatchers ex_watched_a) ''/tmp/a.txt'' = Some ex_hA \<and>
   ex_world ''/tmp/a.txt'' = Some ex_st0 \<and> isDirectory ex_st0 = False \<and>
   change ex_hA ''change'' (Some ''a.txt'') ex_watched_a =
     (Throws TypeError, ex_watched_a\<lparr>stat_calls := [Path_arg ''/tmp/a.txt'', Module_arg]\<rparr>) \<and>
   emitted (snd (change ex_hA ''change'' (Some ''a.txt'') ex_watched_a)) = []"
  by (simp add: ex_watched_d_eq ex_watched_a_eq change_def falsy_def fs_stat_def ex_world_def
      ex_stD_def ex_st0_def)

text \<open>
  C2 (error teardown) does not hold of \<^verbatim>\<open>error\<close>. With \<^verbatim>\<open>/tmp/a.txt\<close> watched and cached,
  the error callback of its handle reads \<^verbatim>\<open>this.FSWatcher\<close> (singular), which is
  \<^verbatim>\<open>undefined\<close>: \<^verbatim>\<open>delete this.FSWatcher[path]\<close> throws a \<^verbatim>\<open>TypeError\<close>. The path stays in
  both maps and no \<^verbatim>\<open>removed\<close> event is emitted, at the first callback and at a second.
\<close>

theorem C2_error_throws:
  "map_of (FSWatchers ex_watched_a) ''/tmp/a.txt'' = Some ex_hA \<and>
   map_of (FStats ex_watched_a) ''/tmp/a.txt'' = Some ex_st0 \<and>
   error ex_hA ENOENT ex_watched_a = (Throws TypeError, ex_watched_a) \<and>
   error ex_hA ENOENT (snd (error ex_hA ENOENT ex_watched_a)) = (Throws TypeError, ex_watched_a) \<and>
   emitted ex_watched_a = []"
  by (simp add: ex_watched_a_eq error_def)

text \<open>
  C3 as stated fails: \<^verbatim>\<open>/tmp/a.txt\<close> is registered and its initial stat is in flight, so
  it has no cached snapshot. A notification without a filename runs the sweep, which
  finds nothing to compare, and then the primary path: the one stat call the
  notification makes is the primary path's \<^verbatim>\<open>fs.stat(fs, ...)\<close>.
\<close>

theorem C3_primary_also_runs_counterexample:
  "falsy None \<and> map_of (FSWatchers ex_registering_a) ''/tmp/a.txt'' = Some ex_hA \<and>
   new_calls ex_registering_a (snd (change ex_hA ''change'' None ex_registering_a)) =
     [Module_arg]"
  by (simp add: ex_registering_a_eq falsy_def new_calls_def change_def manually_def
      manually_files_def test_def fs_stat_def ex_hA_def FStats_truthy_def
      object_prototype_names_def)

text \<open>
  C3, amended. For a notification whose filename is absent (or empty), from a handle
  with a non-empty path, \<^verbatim>\<open>change\<close> first runs the manual sweep over the handle's path
  alone. The list swept is that one path; when the stat cache yields a value for the
  path, the first \<^verbatim>\<open>fs.stat\<close> call of the notification is the sweep's; nothing but
  \<^verbatim>\<open>fs.stat\<close> calls happens; and the outcome and the calls depend on the stat cache only
  through what it yields for the handle's path. There is no \<^verbatim>\<open>return\<close> after the sweep:
  when the cache yields nothing for the path, the sweep returns and the primary path's
  stat call follows for the same notification.
\<close>

theorem C3_sweep_scoped_then_primary:
  assumes "falsy filename" and "path FSW \<noteq> []"
  shows "manually_files (Some FSW) s = [path FSW] \<and>
         only_calls s (snd (change FSW ev filename s)) \<and>
         (FStats_truthy s (path FSW) \<longrightarrow>
            take 1 (new_calls s (snd (change FSW ev filename s))) = [Function_arg]) \<and>
         (\<not> FStats_truthy s (path FSW) \<longrightarrow>
            new_calls s (snd (change FSW ev filename s)) = [Module_arg]) \<and>
         (FStats_truthy s (path FSW) = FStats_truthy t (path FSW) \<longrightarrow>
            fst (change FSW ev filename s) = fst (change FSW ev filename t) \<and>
            new_calls s (snd (change FSW ev filename s)) =
              new_calls t (snd (change FSW ev filename t)))"
proof -
  have c: "change FSW ev filename u =
             (if FStats_truthy u (path FSW) then fs_stat Function_arg u
              else fs_stat Module_arg u)" for u
    using assms by (rule change_no_filename)
  have 1: "manually_files (Some FSW) s = [path FSW]"
    using assms by (simp add: manually_files_def)
  have 2: "only_calls s (snd (change FSW ev filename s))"
    by (rule change_only_calls)
  have 3: "FStats_truthy s (path FSW) \<longrightarrow>
             take 1 (new_calls s (snd (change FSW ev filename s))) = [Function_arg]"
    by (simp add: c new_calls_def fs_stat_def)
  have 4: "\<not> FStats_truthy s (path FSW) \<longrightarrow>
             new_calls s (snd (change FSW ev filename s)) = [Module_arg]"
    by (simp add: c new_calls_def fs_stat_def)
  have 5: "FStats_truthy s (path FSW) = FStats_truthy t (path FSW) \<longrightarrow>
            fst (change FSW ev filename s) = fst (change FSW ev filename t) \<and>
            new_calls s (snd (change FSW ev filename s)) =
              new_calls t (snd (change FSW ev filename t))"
    by (simp add: c [of s] c [of t] new_calls_def fs_stat_def)
  show ?thesis using 1 2 3 4 5 by blast
qed

text \<open>
  The amended C3 at the handle of \<^verbatim>\<open>/tmp/a.txt\<close>: without a cached snapshot, in a state
  that watches only this path and in one that also holds the cached directory \<^verbatim>\<open>/tmp/d\<close>,
  and with a cached snapshot.
\<close>

theorem C3_sweep_scoped_then_primary_witness:
  "falsy None \<and> path ex_hA \<noteq> [] \<and>
   manually_files (Some ex_hA) ex_registering_a = [path ex_hA] \<and>
   only_calls ex_registering_a (snd (change ex_hA ''change'' None ex_registering_a)) \<and>
   \<not> FStats_truthy ex_registering_a (path ex_hA) \<and>
   new_calls ex_registering_a (snd (change ex_hA ''change'' None ex_registering_a)) = [Module_arg] \<and>
   FStats_truthy ex_registering_a (path ex_hA) = FStats_truthy ex_two_paths (path ex_hA) \<and>
   fst (change ex_hA ''change'' None ex_registering_a) =
     fst (change ex_hA ''change'' None ex_two_paths) \<and>
   new_calls ex_registering_a (snd (change ex_hA ''change'' None ex_registering_a)) =
     new_calls ex_two_paths (snd (change ex_hA ''change'' None ex_two_paths)) \<and>
   manually_files (Some ex_hA) ex_watched_a = [path ex_hA] \<and>
   FStats_truthy ex_watched_a (path ex_hA) \<and>
   take 1 (new_calls ex_watched_a (snd (change ex_hA ''change'' None ex_watched_a))) =
     [Function_arg]"
proof -
  have f: "falsy None" by (simp add: falsy_def)
  have p: "path ex_hA \<noteq> []" by (simp add: ex_hA_def)
  have a: "\<not> FStats_truthy ex_registering_a (path ex_hA)"
    by (simp add: ex_registering_a_eq FStats_truthy_def object_prototype_names_def ex_hA_def)
  have b: "FStats_truthy ex_registering_a (path ex_hA) = FStats_truthy ex_two_paths (path ex_hA)"
    by (simp add: ex_registering_a_eq ex_two_paths_eq FStats_truthy_def
        object_prototype_names_def ex_hA_def)
  have c: "FStats_truthy ex_watched_a (path ex_hA)"
    by (simp add: ex_watched_a_eq FStats_truthy_def ex_hA_def)
  show ?thesis
    using C3_sweep_scoped_then_primary [OF f p, where s = ex_registering_a and t = ex_two_paths
        and ev = "''change''"]
      C3_sweep_scoped_then_primary [OF f p, where s = ex_watched_a and t = ex_watched_a
        and ev = "''change''"] f p a b c
    by blast
qed

text \<open>
  C4 (the sweep re-stats, compares by value, emits on a difference and refreshes the
  cache) does not hold of \<^verbatim>\<open>manually\<close>. \<^verbatim>\<open>/tmp/a.txt\<close> is cached with modification time 100
  and has been written to since (time 200). The sweep of its handle throws a
  \<^verbatim>\<open>TypeError\<close>, emits nothing and leaves the old snapshot in the cache: its call
  \<^verbatim>\<open>fs.stat(function ...)\<close> passes no path. The callback \<^verbatim>\<open>stats\<close> of the sweep, were it called
  with the fresh snapshot, would emit the event and still leave the old snapshot in the
  cache, where the callbacks of \<^verbatim>\<open>watch\<close> and \<^verbatim>\<open>change\<close> store the fresh one; called with a
  snapshot of the untouched file, the same modification time in a new \<^verbatim>\<open>Date\<close> object, it
  would emit as well, since \<^verbatim>\<open>!==\<close> compares the two objects.
\<close>

theorem C4_sweep_misses_written_file:
  "map_of (FStats ex_watched_a) ''/tmp/a.txt'' = Some ex_st0 \<and>
   ex_written ''/tmp/a.txt'' = Some ex_st1 \<and> mtime ex_st0 \<noteq> mtime ex_st1 \<and>
   manually (Some ex_hA) ex_watched_a =
     (Throws TypeError, ex_watched_a\<lparr>stat_calls := [Path_arg ''/tmp/a.txt'', Function_arg]\<rparr>) \<and>
   emitted (snd (manually (Some ex_hA) ex_watched_a)) = [] \<and>
   map_of (FStats (snd (manually (Some ex_hA) ex_watched_a))) ''/tmp/a.txt'' = Some ex_st0 \<and>
   manually_stats ''/tmp/a.txt'' ex_st0 (fs_reply ex_written ''/tmp/a.txt'') ex_watched_a =
     (Returns, emit (Change (Some ''/tmp/a.txt'') ex_st1) ex_watched_a) \<and>
   map_of (FStats (emit (Change (Some ''/tmp/a.txt'') ex_st1) ex_watched_a)) ''/tmp/a.txt'' =
     Some ex_st0 \<and>
   mtime ex_st0_again = mtime ex_st0 \<and>
   manually_stats ''/tmp/a.txt'' ex_st0 (None, Some ex_st0_again) ex_watched_a =
     (Returns, emit (Change (Some ''/tmp/a.txt'') ex_st0_again) ex_watched_a)"
  by (simp add: ex_watched_a_eq ex_written_def ex_st0_def ex_st1_def ex_st0_again_def
      manually_def manually_files_def test_def fs_stat_def ex_hA_def manually_stats_def
      fs_reply_def emit_def FStats_truthy_def)

text \<open>
  C5 (existence filter) does not hold of \<^verbatim>\<open>add\<close>. \<^verbatim>\<open>/tmp/a.txt\<close> exists, and \<^verbatim>\<open>add\<close> of it,
  as an array or as a single path, throws a \<^verbatim>\<open>TypeError\<close> and registers nothing:
  \<^verbatim>\<open>async.filter\<close> is given \<^verbatim>\<open>fs.exist\<close>, which is \<^verbatim>\<open>undefined\<close>. The paths that a filter
  would let through go to \<^verbatim>\<open>files.forEach(self.watch)\<close>, which calls \<^verbatim>\<open>watch\<close> detached
  from the instance; that throws as well and registers nothing.
\<close>

theorem C5_add_existing_throws:
  "ex_world ''/tmp/a.txt'' = Some ex_st0 \<and>
   add ex_world (Several [''/tmp/a.txt'']) init = (Throws TypeError, init) \<and>
   add ex_world (Single ''/tmp/a.txt'') init = (Throws TypeError, init) \<and>
   FSWatchers init = [] \<and>
   fst (forEach (watch Undefined ex_world) [''/tmp/a.txt''] init) = Throws TypeError \<and>
   FSWatchers (snd (forEach (watch Undefined ex_world) [''/tmp/a.txt''] init)) = []"
  by (simp add: add_def fs_exist_def ex_world_def init_def watch_def fs_stat_def Let_def)

text \<open>
  C6 as stated fails. Two calls of \<^verbatim>\<open>close()\<close> emit two \<^verbatim>\<open>close\<close> events, on a fresh
  instance and on one that watches a file. And on an instance that has registered the
  path \<^verbatim>\<open>__proto__\<close>, the handle is the prototype of \<^verbatim>\<open>FSWatchers\<close>: the loop of \<^verbatim>\<open>close\<close>
  reaches the string in the handle's \<^verbatim>\<open>path\<close>, \<^verbatim>\<open>'close' in FSWatcher\<close> throws a \<^verbatim>\<open>TypeError\<close>, and
  two calls emit no \<^verbatim>\<open>close\<close> event at all.
\<close>

theorem C6_close_twice_counterexample:
  "emitted (snd (close ex_layout (snd (close ex_layout init)))) = [Close, Close] \<and>
   count_list (emitted (snd (close ex_layout (snd (close ex_layout init))))) Close = 2 \<and>
   emitted (snd (close ex_layout (snd (close ex_layout ex_watched_a)))) = [Close, Close] \<and>
   count_list (emitted (snd (close ex_layout (snd (close ex_layout ex_watched_a))))) Close = 2 \<and>
   FSWatchers_proto ex_proto_watched = Some ex_hP \<and>
   fst (close ex_layout ex_proto_watched) = Throws TypeError \<and>
   emitted (snd (close ex_layout ex_proto_watched)) = [] \<and>
   fst (close ex_layout (snd (close ex_layout ex_proto_watched))) = Throws TypeError \<and>
   emitted (snd (close ex_layout (snd (close ex_layout ex_proto_watched)))) = [] \<and>
   count_list (emitted (snd (close ex_layout (snd (close ex_layout ex_proto_watched))))) Close = 0"
  by (simp add: close_def emit_def init_def ex_watched_a_eq ex_proto_watched_eq ex_layout_def)

text \<open>
  C6, amended. On an instance whose watcher map still has its original prototype (no
  handle was stored under the path \<^verbatim>\<open>__proto__\<close> since the last \<^verbatim>\<open>close\<close>), every call of
  \<^verbatim>\<open>close()\<close> returns and emits one \<^verbatim>\<open>close\<close> event, so two calls in succession emit two;
  after each of the two calls the watcher map and the stat cache are empty, fresh
  objects.
\<close>

theorem C6_close_twice:
  assumes "FSWatchers_proto s = None"
  shows "fst (close L s) = Returns \<and>
         emitted (snd (close L s)) = emitted s @ [Close] \<and>
         fst (close L (snd (close L s))) = Returns \<and>
         emitted (snd (close L (snd (close L s)))) = emitted s @ [Close, Close] \<and>
         FSWatchers (snd (close L s)) = [] \<and> FStats (snd (close L s)) = [] \<and>
         FSWatchers_proto (snd (close L s)) = None \<and> FStats_proto (snd (close L s)) = None \<and>
         FSWatchers (snd (close L (snd (close L s)))) = [] \<and>
         FStats (snd (close L (snd (close L s)))) = [] \<and>
         FSWatchers_proto (snd (close L (snd (close L s)))) = None \<and>
         FStats_proto (snd (close L (snd (close L s)))) = None"
  using assms by (simp add: close_def emit_def Let_def)

text \<open>The amended C6 at the state that watches \<^verbatim>\<open>/tmp/a.txt\<close>.\<close>

theorem C6_close_twice_witness:
  "FSWatchers_proto ex_watched_a = None \<and>
   fst (close ex_layout ex_watched_a) = Returns \<and>
   emitted (snd (close ex_layout ex_watched_a)) = emitted ex_watched_a @ [Close] \<and>
   fst (close ex_layout (snd (close ex_layout ex_watched_a))) = Returns \<and>
   emitted (snd (close ex_layout (snd (close ex_layout ex_watched_a)))) =
     emitted ex_watched_a @ [Close, Close] \<and>
   FSWatchers (snd (close ex_layout ex_watched_a)) = [] \<and>
   FStats (snd (close ex_layout ex_watched_a)) = [] \<and>
   FSWatchers (snd (close ex_layout (snd (close ex_layout ex_watched_a)))) = [] \<and>
   FStats (snd (close ex_layout (snd (close ex_layout ex_watched_a)))) = []"
proof -
  have a: "FSWatchers_proto ex_watched_a = None" by (simp add: ex_watched_a_eq)
  show ?thesis using C6_close_twice [OF a, of ex_layout] a by blast
qed

text \<open>
  C7 (reset) does not hold of \<^verbatim>\<open>reset\<close>. With \<^verbatim>\<open>/tmp/a.txt\<close> watched, \<^verbatim>\<open>reset\<close> of it
  reads \<^verbatim>\<open>this.FSWatcher[path]\<close> with \<^verbatim>\<open>this.FSWatcher\<close> \<^verbatim>\<open>undefined\<close> and throws a
  \<^verbatim>\<open>TypeError\<close>: the old handle stays open and stored, nothing is torn down and nothing
  is registered again.
\<close>

theorem C7_reset_throws:
  "map_of (FSWatchers ex_watched_a) ''/tmp/a.txt'' = Some ex_hA \<and>
   reset ex_world ''/tmp/a.txt'' ex_watched_a = (Throws TypeError, ex_watched_a) \<and>
   live ex_watched_a = [ex_hA]"
  by (simp add: ex_watched_a_eq reset_def)

text \<open>
  C8 (a failed stat is dropped silently) does not hold of \<^verbatim>\<open>change\<close> and \<^verbatim>\<open>manually\<close>.
  \<^verbatim>\<open>/tmp/a.txt\<close> is watched and cached and has been deleted, so a stat of it fails. A
  notification for its handle, with or without a filename, and a sweep of its handle
  each end in a \<^verbatim>\<open>TypeError\<close> that propagates to the caller: the stat calls are
  \<^verbatim>\<open>fs.stat(fs, ...)\<close> and \<^verbatim>\<open>fs.stat(function ...)\<close>, and neither names the path.
\<close>

theorem C8_failed_stat_throws:
  "ex_gone ''/tmp/a.txt'' = None \<and>
   fs_reply ex_gone ''/tmp/a.txt'' = (Some ENOENT, None) \<and>
   fst (change ex_hA ''change'' (Some ''a.txt'') ex_watched_a) = Throws TypeError \<and>
   fst (change ex_hA ''change'' None ex_watched_a) = Throws TypeError \<and>
   fst (manually (Some ex_hA) ex_watched_a) = Throws TypeError"
  by (simp add: ex_watched_a_eq ex_gone_def fs_reply_def change_def falsy_def manually_def
      manually_files_def test_def fs_stat_def ex_hA_def FStats_truthy_def)




text \<open>
  C10. \<^verbatim>\<open>close()\<close> leaves the retry counters and \<open>maxRetries\<close> as they were, whether it
  returns or throws: of the instance's properties it writes only \<open>FSWatchers\<close> and
  \<open>FStats\<close>.
\<close>

theorem C10_close_frame:
  "retries (snd (close L s)) = retries s \<and> maxRetries (snd (close L s)) = maxRetries s
   \<and> FSWatcher (snd (close L s)) = FSWatcher s"
  by (simp add: close_def emit_def Let_def split: option.splits prod.splits outcome.splits)

end
